theory Spec2Isabelle
  imports Complex_Main "HOL-Library.AList"
begin

section \<open>JavaScript values\<close>

text \<open>
  The client (\<^verbatim>\<open>src/index.js\<close>) inspects JSON bodies, builds request bodies and
  calls caller-supplied callbacks. The values it handles are modelled by \<open>jsval\<close>:
  undefined, null, booleans, numbers, strings and plain objects. An object is an
  association list in the order JavaScript enumerates its own properties: the
  array-index keys in ascending order, then the other keys in insertion order.
  JSON arrays are not represented. Caller-supplied callbacks are a type of their
  own (\<open>cbarg\<close>).
\<close>

subsection \<open>Numbers: IEEE 754 binary64\<close>

text \<open>
  A JavaScript Number is a double. A finite double is represented by the rational
  it denotes (\<open>Finite 0\<close> is \<open>+0\<close>), and every arithmetic result is rounded to the
  nearest double, ties to even, by \<open>round64\<close>.
\<close>

datatype jsnum = NaN | PosInf | NegInf | NegZero | Finite rat

function bits :: "int \<Rightarrow> nat" where
  "bits n = (if n \<le> 0 then 0 else Suc (bits (n div 2)))"
  by pat_completeness auto
termination
  by (relation "measure nat") auto

declare bits.simps [simp del]

definition pow2 :: "int \<Rightarrow> rat" where
  "pow2 p = (if 0 \<le> p then 2 ^ nat p else 1 / 2 ^ nat (- p))"

text \<open>\<open>ilog2 a\<close> is the exponent \<open>e\<close> with \<open>2^e \<le> a < 2^(e+1)\<close>, for \<open>a > 0\<close>.\<close>

definition ilog2 :: "rat \<Rightarrow> int" where
  "ilog2 a = (case quotient_of a of (n, d) \<Rightarrow>
     (let e = int (bits n) - int (bits d)
      in if pow2 e \<le> a then e else e - 1))"

definition round_half_even :: "rat \<Rightarrow> int" where
  "round_half_even x = (let f = \<lfloor>x\<rfloor>; d = x - of_int f
     in if d < 1 / 2 then f else if 1 / 2 < d then f + 1
        else if even f then f else f + 1)"

text \<open>
  Rounding of an exact result \<open>r\<close>: 53 significant bits, the smallest quantum
  \<open>2^-1074\<close> (subnormals), overflow to infinity when the rounded magnitude
  reaches \<open>2^1024\<close>.
\<close>

definition round64 :: "rat \<Rightarrow> jsnum" where
  "round64 r = (let a = \<bar>r\<bar>; p = max (ilog2 a - 52) (- 1074);
       m = round_half_even (a / pow2 p); v = of_int m * pow2 p
     in if r = 0 then Finite 0
        else if 1024 \<le> ilog2 v then (if r < 0 then NegInf else PosInf)
        else if m = 0 then (if r < 0 then NegZero else Finite 0)
        else Finite (if r < 0 then - v else v))"

fun is_negative :: "jsnum \<Rightarrow> bool" where
  "is_negative NegInf = True"
| "is_negative NegZero = True"
| "is_negative (Finite q) = (q < 0)"
| "is_negative _ = False"

fun is_zero :: "jsnum \<Rightarrow> bool" where
  "is_zero NegZero = True"
| "is_zero (Finite q) = (q = 0)"
| "is_zero _ = False"

fun is_infinite :: "jsnum \<Rightarrow> bool" where
  "is_infinite PosInf = True"
| "is_infinite NegInf = True"
| "is_infinite _ = False"

fun magnitude :: "jsnum \<Rightarrow> rat" where
  "magnitude (Finite q) = \<bar>q\<bar>"
| "magnitude _ = 0"

definition signed_inf :: "bool \<Rightarrow> jsnum" where
  "signed_inf neg = (if neg then NegInf else PosInf)"

definition signed_zero :: "bool \<Rightarrow> jsnum" where
  "signed_zero neg = (if neg then NegZero else Finite 0)"

definition signed_round :: "bool \<Rightarrow> rat \<Rightarrow> jsnum" where
  "signed_round neg a = round64 (if neg then - a else a)"

text \<open>The operator \<^verbatim>\<open>/\<close> on Numbers.\<close>

definition js_div :: "jsnum \<Rightarrow> jsnum \<Rightarrow> jsnum" where
  "js_div x y = (let neg = (is_negative x \<noteq> is_negative y) in
     if x = NaN \<or> y = NaN then NaN
     else if is_infinite x then (if is_infinite y then NaN else signed_inf neg)
     else if is_infinite y then signed_zero neg
     else if is_zero y then (if is_zero x then NaN else signed_inf neg)
     else if is_zero x then signed_zero neg
     else signed_round neg (magnitude x / magnitude y))"

text \<open>The operator \<^verbatim>\<open>*\<close> on Numbers.\<close>

definition js_mul :: "jsnum \<Rightarrow> jsnum \<Rightarrow> jsnum" where
  "js_mul x y = (let neg = (is_negative x \<noteq> is_negative y) in
     if x = NaN \<or> y = NaN then NaN
     else if is_infinite x \<or> is_infinite y
       then (if is_zero x \<or> is_zero y then NaN else signed_inf neg)
     else if is_zero x \<or> is_zero y then signed_zero neg
     else signed_round neg (magnitude x * magnitude y))"

text \<open>\<^verbatim>\<open>Math.ceil\<close>: the result is exact; a value in \<open>(-1, 0)\<close> gives \<open>-0\<close>.\<close>

fun js_ceil :: "jsnum \<Rightarrow> jsnum" where
  "js_ceil (Finite q) = (if q < 0 \<and> \<lceil>q\<rceil> = 0 then NegZero else Finite (of_int \<lceil>q\<rceil>))"
| "js_ceil x = x"

subsection \<open>Values, truthiness, property access\<close>

datatype jsval =
    Undefined
  | Null
  | Bool bool
  | Num jsnum
  | Str string
  | Obj "(string \<times> jsval) list"

datatype js_error = TypeError | ReferenceError

fun truthy :: "jsval \<Rightarrow> bool" where
  "truthy Undefined = False"
| "truthy Null = False"
| "truthy (Bool b) = b"
| "truthy (Num n) = (n \<noteq> NaN \<and> \<not> is_zero n)"
| "truthy (Str s) = (s \<noteq> [])"
| "truthy (Obj ps) = True"

text \<open>
  \<^verbatim>\<open>v.k\<close> for the property names the client reads (\<^verbatim>\<open>_id\<close>, \<^verbatim>\<open>status\<close>,
  \<^verbatim>\<open>progress\<close>, \<^verbatim>\<open>current\<close>, \<^verbatim>\<open>max\<close>): reading a property of undefined or
  null raises a TypeError, a missing property is undefined, and none of these
  names is defined on a boolean, number or string.
\<close>

fun get_prop :: "jsval \<Rightarrow> string \<Rightarrow> js_error + jsval" where
  "get_prop Undefined k = Inl TypeError"
| "get_prop Null k = Inl TypeError"
| "get_prop (Obj ps) k = Inr (case map_of ps k of None \<Rightarrow> Undefined | Some v \<Rightarrow> v)"
| "get_prop v k = Inr Undefined"

text \<open>
  \<^verbatim>\<open>v.k = x\<close> on a base that is neither undefined nor null, for the property
  names the client writes (\<^verbatim>\<open>percent\<close>, none of them an array index): an existing
  property keeps its place, a new one comes last. The file is not in strict mode,
  so an assignment to a property of a primitive is dropped silently.
\<close>

fun set_prop :: "jsval \<Rightarrow> string \<Rightarrow> jsval \<Rightarrow> jsval" where
  "set_prop (Obj ps) k x = Obj (AList.update k x ps)"
| "set_prop v k x = v"

text \<open>
  ToNumber. The conversion of a string is the runtime's StringToNumber, a
  parameter \<open>str2num\<close> of the model. A plain object converts through
  \<^verbatim>\<open>valueOf\<close>/\<^verbatim>\<open>toString\<close>: the inherited ones give \<^verbatim>\<open>"[object Object]"\<close>, hence
  NaN; an own \<^verbatim>\<open>toString\<close> property (never callable in a JSON body) leaves no way
  to a primitive, a TypeError.
\<close>

fun to_number :: "(string \<Rightarrow> jsnum) \<Rightarrow> jsval \<Rightarrow> js_error + jsnum" where
  "to_number str2num Undefined = Inr NaN"
| "to_number str2num Null = Inr (Finite 0)"
| "to_number str2num (Bool b) = Inr (Finite (if b then 1 else 0))"
| "to_number str2num (Num n) = Inr n"
| "to_number str2num (Str s) = Inr (str2num s)"
| "to_number str2num (Obj ps) =
     (if ''toString'' \<in> fst ` set ps then Inl TypeError else Inr NaN)"

subsection \<open>Integers as decimal strings\<close>

definition digit_char :: "nat \<Rightarrow> char" where
  "digit_char d = ''0123456789'' ! d"

function digits :: "nat \<Rightarrow> string" where
  "digits n = (if n < 10 then [digit_char n] else digits (n div 10) @ [digit_char (n mod 10)])"
  by pat_completeness auto
termination
  by (relation "measure id") auto

declare digits.simps [simp del]

text \<open>ToString of an integer Number (below \<open>10^21\<close>, where JavaScript prints all digits).\<close>

definition show_int :: "int \<Rightarrow> string" where
  "show_int i = (if i < 0 then CHR ''-'' # digits (nat (- i)) else digits (nat i))"

subsection \<open>Property order\<close>

text \<open>
  An array index is a key that is the canonical decimal string of a number up to
  \<open>2^32 - 2\<close>: the key is read as a decimal number and must be what that number
  prints as (so no sign, no leading zero, digits only).
\<close>

definition dec_value :: "string \<Rightarrow> nat" where
  "dec_value k = foldl (\<lambda>a c. 10 * a + (of_char c - 48)) 0 k"

definition index_of :: "string \<Rightarrow> nat option" where
  "index_of k =
     (let n = dec_value k in if digits n = k \<and> n \<le> 4294967294 then Some n else None)"

text \<open>A new array-index key goes before the first key that is a larger index or no index.\<close>

fun insert_index :: "nat \<Rightarrow> string \<Rightarrow> jsval \<Rightarrow> (string \<times> jsval) list \<Rightarrow> (string \<times> jsval) list" where
  "insert_index n k v [] = [(k, v)]"
| "insert_index n k v (p # ps) =
     (case index_of (fst p) of
        None \<Rightarrow> (k, v) # p # ps
      | Some m \<Rightarrow> if m < n then p # insert_index n k v ps else (k, v) # p # ps)"

text \<open>
  \<^verbatim>\<open>object[k] = v\<close> on a plain object: an existing property keeps its place; a new
  array-index key is placed among the indices; any other new key comes last.
\<close>

definition put_prop :: "string \<Rightarrow> jsval \<Rightarrow> (string \<times> jsval) list \<Rightarrow> (string \<times> jsval) list" where
  "put_prop k v ps =
     (if k \<in> fst ` set ps then AList.update k v ps
      else
        (case index_of k of
           None \<Rightarrow> ps @ [(k, v)]
         | Some n \<Rightarrow> insert_index n k v ps))"

section \<open>Requests, responses, callbacks\<close>

text \<open>\<^verbatim>\<open>this.config\<close>.\<close>

record config =
  url :: string
  pollFreq :: nat

definition default_config :: config where
  "default_config = \<lparr>url = ''http://glitch'', pollFreq = 1000\<rparr>"

datatype http_method = GET | POST

text \<open>
  What the superagent call chain hands to the agent: \<^verbatim>\<open>.get(url)\<close> or \<^verbatim>\<open>.post(url)\<close>,
  \<^verbatim>\<open>.send(data)\<close>, \<^verbatim>\<open>.query(q)\<close>, \<^verbatim>\<open>.attach(name, file)\<close> and each \<^verbatim>\<open>.field(k, v)\<close>.
\<close>

record request =
  req_method :: http_method
  req_url :: string
  req_send :: "jsval option"
  req_query :: "jsval option"
  req_attach :: "(string \<times> jsval) list"
  req_field :: "(string \<times> jsval) list"

text \<open>
  The response object read by the client: \<^verbatim>\<open>res.statusCode\<close>, \<^verbatim>\<open>res.status\<close> (both
  the HTTP status in superagent) and \<^verbatim>\<open>res.body\<close>.
\<close>

record response =
  statusCode :: int
  status :: int
  body :: jsval

text \<open>An argument in callback position: a function, or any other value.\<close>

datatype cbarg = Function | NotFunction jsval

fun isFunction :: "cbarg \<Rightarrow> bool" where
  "isFunction Function = True"
| "isFunction (NotFunction v) = False"

text \<open>
  The observable effects of the client, in the order they happen: a request
  handed to the agent, an invocation of the completion callback or of the progress
  callback with its arguments, a timer set for \<^verbatim>\<open>checkTask\<close>, an exception raised.
\<close>

datatype effect =
    Request request
  | Callback "jsval list"
  | CallbackProgress "jsval list"
  | SetTimeout nat
  | Throw js_error

text \<open>\<^verbatim>\<open>callback(args)\<close> without a guard: calling a non-function raises a TypeError.\<close>

definition call_callback :: "cbarg \<Rightarrow> jsval list \<Rightarrow> effect list" where
  "call_callback callback args = (if isFunction callback then [Callback args] else [Throw TypeError])"

text \<open>\<^verbatim>\<open>_handleResponse(err, res, callback)\<close>, lines 30 to 35.\<close>

definition handleResponse :: "jsval \<Rightarrow> response \<Rightarrow> cbarg \<Rightarrow> effect list" where
  "handleResponse err res callback =
     (if \<not> isFunction callback then []
      else if truthy err then [Callback [err]]
      else if statusCode res \<noteq> 200
        then [Callback [Str (''Status code: '' @ show_int (statusCode res))]]
      else [Callback [Null, body res]])"

text \<open>
  An operation hands a request to the agent and registers its \<^verbatim>\<open>.end\<close> handler,
  which later receives \<open>(err, res)\<close>.
\<close>

type_synonym pending = "request \<times> (jsval \<Rightarrow> response \<Rightarrow> effect list)"

section \<open>The resource operations\<close>

text \<open>\<^verbatim>\<open>login(username, password, callback)\<close>, lines 44 to 48.\<close>

definition login :: "config \<Rightarrow> jsval \<Rightarrow> jsval \<Rightarrow> cbarg \<Rightarrow> pending" where
  "login cfg username password callback =
     (\<lparr>req_method = POST, req_url = url cfg @ ''/api/users/login'',
       req_send = Some (Obj [(''username'', username), (''password'', password)]),
       req_query = None, req_attach = [], req_field = []\<rparr>,
      \<lambda>err res. handleResponse err res callback)"

text \<open>
  The enumerable own properties that lodash's \<^verbatim>\<open>_.forEach\<close> and \<^verbatim>\<open>_.merge\<close> walk
  through: those of an object; the characters of a string, by index; none for the
  other primitives. (An object with a numeric \<^verbatim>\<open>length\<close>, which lodash walks
  through as an array, is not considered.)
\<close>

fun own_props :: "jsval \<Rightarrow> (string \<times> jsval) list" where
  "own_props (Obj ps) = ps"
| "own_props (Str s) = map (\<lambda>(i, c). (digits i, Str [c])) (enumerate 0 s)"
| "own_props v = []"

text \<open>\<^verbatim>\<open>upload(file, settings, callback)\<close>, lines 60 to 72.\<close>

definition upload :: "config \<Rightarrow> jsval \<Rightarrow> jsval \<Rightarrow> cbarg \<Rightarrow> pending" where
  "upload cfg file settings callback =
     (\<lparr>req_method = POST, req_url = url cfg @ ''/api/libraries/import'',
       req_send = None, req_query = None,
       req_attach = [(''file'', file)],
       req_field = own_props settings\<rparr>,
      \<lambda>err res. handleResponse err res callback)"

text \<open>\<^verbatim>\<open>taskQueue(library, task, settings, callback)\<close>, lines 83 to 89.\<close>

definition taskQueue :: "config \<Rightarrow> string \<Rightarrow> string \<Rightarrow> jsval \<Rightarrow> cbarg \<Rightarrow> pending" where
  "taskQueue cfg library task settings callback =
     (\<lparr>req_method = POST,
       req_url = url cfg @ ''/api/tasks/library/'' @ library @ ''/'' @ task,
       req_send = Some (Obj [(''settings'', if truthy settings then settings else Obj [])]),
       req_query = None, req_attach = [], req_field = []\<rparr>,
      \<lambda>err res. handleResponse err res callback)"

subsection \<open>lodash's merge\<close>

text \<open>
  \<^verbatim>\<open>_.merge(object, source)\<close> as lodash documents it: the own properties of the
  source are assigned to the object from left to right, a later source overwriting
  an earlier one; plain objects are merged recursively; a source property that is
  undefined is skipped when the key exists in the object. Each assignment is an
  ordinary property assignment (\<open>put_prop\<close>).
\<close>

definition assignMergeValue :: "(string \<times> jsval) list \<Rightarrow> string \<Rightarrow> jsval \<Rightarrow> (string \<times> jsval) list" where
  "assignMergeValue object k v =
     (if v = Undefined \<and> k \<in> fst ` set object then object else put_prop k v object)"

fun merge_props :: "(string \<times> jsval) list \<Rightarrow> (string \<times> jsval) list \<Rightarrow> (string \<times> jsval) list" where
  "merge_props object [] = object"
| "merge_props object ((k, Obj sps) # rest) =
     merge_props
       (assignMergeValue object k
          (Obj (merge_props (case map_of object k of Some (Obj ops) \<Rightarrow> ops | _ \<Rightarrow> []) sps)))
       rest"
| "merge_props object ((k, v) # rest) = merge_props (assignMergeValue object k v) rest"

fun merge :: "jsval \<Rightarrow> jsval \<Rightarrow> jsval" where
  "merge (Obj ops) source = Obj (merge_props ops (own_props source))"
| "merge object source = object"

text \<open>
  \<^verbatim>\<open>getLibraryReferences(library, query, callback)\<close>, lines 147 to 153. The URL is
  built from \<^verbatim>\<open>config.url\<close>, not \<^verbatim>\<open>this.config.url\<close>: the module declares no
  \<^verbatim>\<open>config\<close>, so the name resolves to a global of the host program, the parameter
  \<open>global_config\<close>, and evaluating it raises a ReferenceError when there is none.
  The library argument is read as an object: \<^verbatim>\<open>library._id\<close>.
\<close>

definition getLibraryReferences ::
  "config option \<Rightarrow> jsval \<Rightarrow> jsval \<Rightarrow> cbarg \<Rightarrow> js_error + pending" where
  "getLibraryReferences global_config library query callback =
     (case global_config of
        None \<Rightarrow> Inl ReferenceError
      | Some c \<Rightarrow>
          (case get_prop library ''_id'' of
             Inl e \<Rightarrow> Inl e
           | Inr i \<Rightarrow>
               Inr (\<lparr>req_method = GET, req_url = url c @ ''/api/references'',
                     req_send = None,
                     req_query = Some (merge (merge (Obj []) (Obj [(''library'', i)])) query),
                     req_attach = [], req_field = []\<rparr>,
                    \<lambda>err res. handleResponse err res callback)))"

section \<open>The task poller\<close>

text \<open>
  What the closures of one \<^verbatim>\<open>taskWait(task, callback, callbackProgress)\<close>
  invocation capture: \<^verbatim>\<open>self.config\<close> and the three arguments.
\<close>

record waiter =
  self_config :: config
  task :: string
  callback :: cbarg
  callbackProgress :: cbarg

text \<open>\<^verbatim>\<open>Math.ceil(current / max * 100)\<close>, both operands converted by ToNumber.\<close>

definition percent_of :: "(string \<Rightarrow> jsnum) \<Rightarrow> jsval \<Rightarrow> jsval \<Rightarrow> js_error + jsnum" where
  "percent_of str2num current mx =
     (case to_number str2num current of
        Inl e \<Rightarrow> Inl e
      | Inr c \<Rightarrow>
          (case to_number str2num mx of
             Inl e \<Rightarrow> Inl e
           | Inr m \<Rightarrow> Inr (js_ceil (js_mul (js_div c m) (Finite 100)))))"

text \<open>
  The \<^verbatim>\<open>processing\<close> case, lines 119 to 126. The assignment to
  \<^verbatim>\<open>res.body.progress.percent\<close> changes the progress object inside the body, which is
  then passed to the progress callback.
\<close>

definition processing :: "(string \<Rightarrow> jsnum) \<Rightarrow> waiter \<Rightarrow> response \<Rightarrow> effect list" where
  "processing str2num w res =
     (if isFunction (callbackProgress w) then
        (case get_prop (body res) ''progress'' of
           Inl e \<Rightarrow> [Throw e]
         | Inr progress \<Rightarrow>
             if progress = Undefined \<or> progress = Null then [Throw TypeError]
             else
               (case get_prop progress ''current'' of
                  Inl e \<Rightarrow> [Throw e]
                | Inr current \<Rightarrow>
               (case get_prop progress ''max'' of
                  Inl e \<Rightarrow> [Throw e]
                | Inr mx \<Rightarrow>
               (case percent_of str2num current mx of
                  Inl e \<Rightarrow> [Throw e]
                | Inr percent \<Rightarrow>
                    [CallbackProgress
                       [set_prop (body res) ''progress'' (set_prop progress ''percent'' (Num percent))],
                     SetTimeout (pollFreq (self_config w))]))))
      else [SetTimeout (pollFreq (self_config w))])"

text \<open>The \<^verbatim>\<open>.end\<close> handler of a poll, lines 105 to 133.\<close>

definition onEnd :: "(string \<Rightarrow> jsnum) \<Rightarrow> waiter \<Rightarrow> jsval \<Rightarrow> response \<Rightarrow> effect list" where
  "onEnd str2num w err res =
     (if truthy err then call_callback (callback w) [err]
      else
        (case get_prop (body res) ''_id'' of
           Inl e \<Rightarrow> [Throw e]
         | Inr i \<Rightarrow>
             if \<not> truthy i then call_callback (callback w) [Str ''Empty response'']
             else
               (case get_prop (body res) ''status'' of
                  Inl e \<Rightarrow> [Throw e]
                | Inr st \<Rightarrow>
                    if \<not> truthy st then call_callback (callback w) [Str ''Empty response'']
                    else if st = Str ''completed'' then handleResponse err res (callback w)
                    else if st = Str ''pending'' then [SetTimeout (pollFreq (self_config w))]
                    else if st = Str ''error'' then call_callback (callback w) [Str ''Task error'']
                    else if st = Str ''processing'' then processing str2num w res
                    else call_callback (callback w)
                           [Str (''Unknown server task status: '' @ show_int (status res))])))"

subsection \<open>The poll loop as a state machine\<close>

text \<open>
  The loop runs on the event loop: \<^verbatim>\<open>checkTask\<close> hands one request to the agent;
  when its response arrives the handler runs, and may set a timer for the next
  \<^verbatim>\<open>checkTask\<close>. The state counts the requests awaiting a response and the
  timers not yet fired, and logs every effect.
\<close>

record poll_state =
  inflight :: nat
  timers :: nat
  trace :: "effect list"

definition poll_request :: "waiter \<Rightarrow> request" where
  "poll_request w =
     \<lparr>req_method = GET, req_url = url (self_config w) @ ''/api/tasks/'' @ task w,
      req_send = None, req_query = None, req_attach = [], req_field = []\<rparr>"

definition checkTask :: "waiter \<Rightarrow> poll_state \<Rightarrow> poll_state" where
  "checkTask w s = s\<lparr>inflight := Suc (inflight s), trace := trace s @ [Request (poll_request w)]\<rparr>"

text \<open>\<^verbatim>\<open>taskWait\<close> calls \<^verbatim>\<open>checkTask\<close> once and returns.\<close>

definition taskWait :: "waiter \<Rightarrow> poll_state" where
  "taskWait w = checkTask w \<lparr>inflight = 0, timers = 0, trace = []\<rparr>"

text \<open>
  What the environment does: the agent answers the request in flight with
  \<open>(err, res)\<close>, or a timer fires. An event that has nothing to answer or to
  fire leaves the state as it is.
\<close>

datatype event = Response jsval response | TimerFires

fun is_SetTimeout :: "effect \<Rightarrow> bool" where
  "is_SetTimeout (SetTimeout ms) = True"
| "is_SetTimeout e = False"

fun is_Callback :: "effect \<Rightarrow> bool" where
  "is_Callback (Callback args) = True"
| "is_Callback e = False"

fun is_Request :: "effect \<Rightarrow> bool" where
  "is_Request (Request r) = True"
| "is_Request e = False"

fun step :: "(string \<Rightarrow> jsnum) \<Rightarrow> waiter \<Rightarrow> poll_state \<Rightarrow> event \<Rightarrow> poll_state" where
  "step str2num w s (Response err res) =
     (if inflight s = 0 then s
      else
        (let effects = onEnd str2num w err res
         in s\<lparr>inflight := inflight s - 1,
              timers := timers s + length (filter is_SetTimeout effects),
              trace := trace s @ effects\<rparr>))"
| "step str2num w s TimerFires =
     (if timers s = 0 then s else checkTask w (s\<lparr>timers := timers s - 1\<rparr>))"

definition run :: "(string \<Rightarrow> jsnum) \<Rightarrow> waiter \<Rightarrow> poll_state \<Rightarrow> event list \<Rightarrow> poll_state" where
  "run str2num w s events = foldl (step str2num w) s events"

subsection \<open>Counting effects; terminal responses\<close>

text \<open>The number of requests, of completion callback invocations and of timers set in a trace.\<close>

definition n_requests :: "effect list \<Rightarrow> nat" where
  "n_requests effects = length (filter is_Request effects)"

definition n_callbacks :: "effect list \<Rightarrow> nat" where
  "n_callbacks effects = length (filter is_Callback effects)"

definition n_timeouts :: "effect list \<Rightarrow> nat" where
  "n_timeouts effects = length (filter is_SetTimeout effects)"

text \<open>
  A response ends the loop when the transport failed, when the body's \<^verbatim>\<open>_id\<close> or
  \<^verbatim>\<open>status\<close> is missing or falsy (empty response), or when the status is
  anything but \<^verbatim>\<open>pending\<close> and \<^verbatim>\<open>processing\<close> (completed, error, unknown).
\<close>

definition terminal :: "jsval \<Rightarrow> response \<Rightarrow> bool" where
  "terminal err res =
     (truthy err \<or>
      (case get_prop (body res) ''_id'' of
         Inl e \<Rightarrow> False
       | Inr i \<Rightarrow>
           (case get_prop (body res) ''status'' of
              Inl e \<Rightarrow> False
            | Inr st \<Rightarrow>
                \<not> truthy i \<or> \<not> truthy st \<or> (st \<noteq> Str ''pending'' \<and> st \<noteq> Str ''processing''))))"

text \<open>
  The invariant of the loop: at most one request or timer is outstanding, the
  completion callback has run at most once and not at all while something is
  outstanding, and every timer that fired was followed by one request.
\<close>

definition poll_inv :: "poll_state \<Rightarrow> bool" where
  "poll_inv s =
     (inflight s + timers s \<le> 1 \<and>
      n_callbacks (trace s) \<le> 1 \<and>
      (0 < inflight s + timers s \<longrightarrow> n_callbacks (trace s) = 0) \<and>
      n_requests (trace s) + timers s = Suc (n_timeouts (trace s)))"

subsection \<open>Auxiliary notions\<close>

text \<open>The request an operation issued, if it got that far.\<close>

definition request_of :: "js_error + pending \<Rightarrow> js_error + request" where
  "request_of r = map_sum id fst r"

subsection \<open>Example inputs\<close>

definition waiter0 :: waiter where
  "waiter0 = \<lparr>self_config = default_config, task = ''t1'', callback = Function,
              callbackProgress = Function\<rparr>"

definition ok_response :: "jsval \<Rightarrow> response" where
  "ok_response b = \<lparr>statusCode = 200, status = 200, body = b\<rparr>"

definition task_body :: "string \<Rightarrow> jsval" where
  "task_body st = Obj [(''_id'', Str ''t1''), (''status'', Str st)]"

definition nan_of_string :: "string \<Rightarrow> jsnum" where
  "nan_of_string s = NaN"

definition waiter_no_callback :: waiter where
  "waiter_no_callback = \<lparr>self_config = default_config, task = ''t1'',
     callback = NotFunction Undefined, callbackProgress = NotFunction Undefined\<rparr>"

definition progress_body :: "jsval \<Rightarrow> jsval \<Rightarrow> jsval" where
  "progress_body c m = Obj [(''_id'', Str ''t1''), (''status'', Str ''processing''),
     (''progress'', Obj [(''current'', c), (''max'', m)])]"

section \<open>Properties of the poll loop\<close>

lemma n_append [simp]:
  "n_requests (xs @ ys) = n_requests xs + n_requests ys"
  "n_callbacks (xs @ ys) = n_callbacks xs + n_callbacks ys"
  "n_timeouts (xs @ ys) = n_timeouts xs + n_timeouts ys"
  by (simp_all add: n_requests_def n_callbacks_def n_timeouts_def)

lemma n_simps [simp]:
  "n_requests [] = 0" "n_callbacks [] = 0" "n_timeouts [] = 0"
  "n_requests (e # es) = (if is_Request e then 1 else 0) + n_requests es"
  "n_callbacks (e # es) = (if is_Callback e then 1 else 0) + n_callbacks es"
  "n_timeouts (e # es) = (if is_SetTimeout e then 1 else 0) + n_timeouts es"
  by (simp_all add: n_requests_def n_callbacks_def n_timeouts_def)

lemma call_callback_counts:
  "n_requests (call_callback cb args) = 0"
  "n_timeouts (call_callback cb args) = 0"
  "n_callbacks (call_callback cb args) = (if isFunction cb then 1 else 0)"
  by (simp_all add: call_callback_def)

lemma handleResponse_counts:
  "n_requests (handleResponse err res cb) = 0"
  "n_timeouts (handleResponse err res cb) = 0"
  "n_callbacks (handleResponse err res cb) = (if isFunction cb then 1 else 0)"
  by (simp_all add: handleResponse_def)

lemma processing_counts:
  "n_requests (processing str2num w res) = 0"
  "n_callbacks (processing str2num w res) = 0"
  "n_timeouts (processing str2num w res) \<le> 1"
  by (simp_all add: processing_def split: sum.splits)

lemma onEnd_counts:
  "n_requests (onEnd str2num w err res) = 0"
  "n_callbacks (onEnd str2num w err res) + n_timeouts (onEnd str2num w err res) \<le> 1"
  using processing_counts [of str2num w res]
  by (simp_all add: onEnd_def call_callback_counts handleResponse_counts split: sum.splits)

lemma onEnd_terminal:
  assumes "terminal err res"
  shows "n_timeouts (onEnd str2num w err res) = 0"
    and "isFunction (callback w) \<Longrightarrow> n_callbacks (onEnd str2num w err res) = 1"
proof -
  have "n_timeouts (onEnd str2num w err res) = 0 \<and>
        n_callbacks (onEnd str2num w err res) = (if isFunction (callback w) then 1 else 0)"
  proof (cases "truthy err")
    case True
    then show ?thesis
      by (simp add: onEnd_def call_callback_counts)
  next
    case False
    with assms obtain i st where props: "get_prop (body res) ''_id'' = Inr i"
        "get_prop (body res) ''status'' = Inr st"
      and fin: "\<not> truthy i \<or> \<not> truthy st \<or> (st \<noteq> Str ''pending'' \<and> st \<noteq> Str ''processing'')"
      by (auto simp add: terminal_def split: sum.splits)
    show ?thesis
      using False props fin
      by (simp add: onEnd_def call_callback_counts handleResponse_counts)
  qed
  then show "n_timeouts (onEnd str2num w err res) = 0"
    and "isFunction (callback w) \<Longrightarrow> n_callbacks (onEnd str2num w err res) = 1"
    by simp_all
qed

lemma poll_inv_taskWait: "poll_inv (taskWait w)"
  by (simp add: poll_inv_def taskWait_def checkTask_def)

lemma poll_inv_step: "poll_inv s \<Longrightarrow> poll_inv (step str2num w s ev)"
proof (cases ev)
  case (Response err res)
  assume "poll_inv s"
  then show ?thesis
    using onEnd_counts [of str2num w err res] Response
    by (auto simp add: poll_inv_def Let_def n_timeouts_def [symmetric])
next
  case TimerFires
  assume "poll_inv s"
  then show ?thesis
    using TimerFires by (auto simp add: poll_inv_def checkTask_def)
qed

lemma poll_inv_run: "poll_inv s \<Longrightarrow> poll_inv (run str2num w s events)"
  unfolding run_def by (induction events arbitrary: s) (simp_all add: poll_inv_step)

lemma step_idle: "inflight s = 0 \<Longrightarrow> timers s = 0 \<Longrightarrow> step str2num w s ev = s"
  by (cases ev) simp_all

lemma run_idle: "inflight s = 0 \<Longrightarrow> timers s = 0 \<Longrightarrow> run str2num w s events = s"
  unfolding run_def by (induction events) (simp_all add: step_idle)

lemma get_prop_ObjE:
  assumes "get_prop b k = Inr v" and "v \<noteq> Undefined"
  obtains bs where "b = Obj bs" and "map_of bs k = Some v"
  using assms by (cases b) (auto split: option.splits)

section \<open>Evaluations used below\<close>

lemma show_int_200: "show_int 200 = ''200''"
  by code_simp

lemma show_int_404: "show_int 404 = ''404''"
  by code_simp

lemma percent_3_4: "js_ceil (js_mul (js_div (Finite 3) (Finite 4)) (Finite 100)) = Finite 75"
  by code_simp

text \<open>
  The arithmetic is that of doubles: \<open>7 / 100\<close> is rounded up, the product with
  \<open>100\<close> is above \<open>7\<close>, and its ceiling is \<open>8\<close>.
\<close>

lemma percent_7_100: "js_ceil (js_mul (js_div (Finite 7) (Finite 100)) (Finite 100)) = Finite 8"
  by code_simp

lemma index_of_library: "index_of ''library'' = None"
  by (simp add: index_of_def dec_value_def digits.simps digit_char_def Let_def)

lemma index_of_sort: "index_of ''sort'' = None"
  by (simp add: index_of_def dec_value_def digits.simps digit_char_def Let_def)

lemma index_of_1: "index_of ''1'' = Some 1"
  by (simp add: index_of_def dec_value_def digits.simps digit_char_def Let_def)

section \<open>Properties of the client\<close>

text \<open>
  C1. For every \<^verbatim>\<open>taskWait\<close> invocation and every sequence of responses and
  timer firings: at most one poll timer is outstanding; the number of requests
  issued equals the number of ticks, that is one (the initial call of
  \<^verbatim>\<open>checkTask\<close>) plus the timers that have fired (those set less those
  outstanding), so each tick performs exactly one request; the completion callback
  is never invoked twice; and when the response to the request in flight is
  terminal (transport error, empty response, completed, error, unknown status),
  the handler leaves no request and no timer outstanding and issues no request,
  whatever happens later changes nothing (no further request, no further
  callback), and a completion callback that was supplied has then been invoked
  exactly once.
\<close>

theorem taskWait_poll_loop:
  "let s = run str2num w (taskWait w) events in
     timers s \<le> 1 \<and>
     n_requests (trace s) = Suc (n_timeouts (trace s)) - timers s \<and>
     n_callbacks (trace s) \<le> 1 \<and>
     (0 < inflight s \<and> terminal err res \<longrightarrow>
        (let s1 = step str2num w s (Response err res) in
           inflight s1 = 0 \<and> timers s1 = 0 \<and>
           n_requests (trace s1) = n_requests (trace s) \<and>
           run str2num w s1 later = s1 \<and>
           (isFunction (callback w) \<longrightarrow> n_callbacks (trace s1) = 1)))"
proof -
  define s where "s = run str2num w (taskWait w) events"
  define s1 where "s1 = step str2num w s (Response err res)"
  have inv: "poll_inv s"
    unfolding s_def by (rule poll_inv_run) (rule poll_inv_taskWait)
  have safety: "timers s \<le> 1" "n_requests (trace s) = Suc (n_timeouts (trace s)) - timers s"
    "n_callbacks (trace s) \<le> 1"
    using inv by (auto simp add: poll_inv_def)
  have absorbing: "inflight s1 = 0 \<and> timers s1 = 0 \<and>
      n_requests (trace s1) = n_requests (trace s) \<and> run str2num w s1 later = s1 \<and>
      (isFunction (callback w) \<longrightarrow> n_callbacks (trace s1) = 1)"
    if active: "0 < inflight s" and fin: "terminal err res"
  proof -
    have none: "n_timeouts (onEnd str2num w err res) = 0" "n_requests (onEnd str2num w err res) = 0"
      using fin by (simp_all add: onEnd_terminal onEnd_counts)
    from inv active have st: "inflight s = 1" "timers s = 0" "n_callbacks (trace s) = 0"
      by (simp_all add: poll_inv_def)
    have idle: "inflight s1 = 0" "timers s1 = 0"
      using st none by (simp_all add: s1_def Let_def n_timeouts_def [symmetric])
    moreover have "n_requests (trace s1) = n_requests (trace s)"
      using st none by (simp add: s1_def Let_def)
    moreover have "run str2num w s1 later = s1"
      using idle by (rule run_idle)
    moreover have "n_callbacks (trace s1) = 1" if "isFunction (callback w)"
      using st that fin by (simp add: s1_def Let_def onEnd_terminal)
    ultimately show ?thesis by simp
  qed
  show ?thesis
    unfolding Let_def s_def [symmetric] s1_def [symmetric]
    using safety absorbing by blast
qed

theorem taskWait_poll_loop_witness:
  "0 < inflight (run nan_of_string waiter0 (taskWait waiter0)
          [Response Null (ok_response (task_body ''pending'')), TimerFires]) \<and>
   terminal Null (ok_response (task_body ''completed'')) \<and>
   isFunction (callback waiter0) \<and>
   (let s = run nan_of_string waiter0 (taskWait waiter0)
              [Response Null (ok_response (task_body ''pending'')), TimerFires];
        s1 = step nan_of_string waiter0 s (Response Null (ok_response (task_body ''completed'')))
    in timers s \<le> 1 \<and> n_callbacks (trace s1) = 1 \<and>
       n_requests (trace s1) = n_requests (trace s) \<and>
       run nan_of_string waiter0 s1
         [TimerFires, Response Null (ok_response (task_body ''pending''))] = s1)"
proof -
  have h1: "0 < inflight (run nan_of_string waiter0 (taskWait waiter0)
          [Response Null (ok_response (task_body ''pending'')), TimerFires])"
    by code_simp
  have h2: "terminal Null (ok_response (task_body ''completed''))"
    by code_simp
  have h3: "isFunction (callback waiter0)"
    by (simp add: waiter0_def)
  from taskWait_poll_loop [of nan_of_string waiter0
      "[Response Null (ok_response (task_body ''pending'')), TimerFires]"
      Null "ok_response (task_body ''completed'')"
      "[TimerFires, Response Null (ok_response (task_body ''pending''))]"] h1 h2 h3
  show ?thesis
    unfolding Let_def by blast
qed

text \<open>
  C2, at a failing input. \<^verbatim>\<open>taskWait\<close> invoked without a completion callback:
  when the poll fails in transport, or the task reports \<^verbatim>\<open>error\<close>, the handler
  calls \<^verbatim>\<open>callback(...)\<close> unguarded and a TypeError is raised; the outcome is not
  dropped silently. \<^verbatim>\<open>getLibraryReferences\<close> raises a ReferenceError before any
  request when no global \<^verbatim>\<open>config\<close> exists.
\<close>

theorem missing_callback_raises:
  "trace (run nan_of_string waiter_no_callback (taskWait waiter_no_callback)
            [Response (Str ''ECONNREFUSED'') (ok_response Undefined)]) =
     [Request (poll_request waiter_no_callback), Throw TypeError] \<and>
   trace (run nan_of_string waiter_no_callback (taskWait waiter_no_callback)
            [Response Null (ok_response (task_body ''error''))]) =
     [Request (poll_request waiter_no_callback), Throw TypeError] \<and>
   request_of (getLibraryReferences None (Obj [(''_id'', Str ''L1'')]) Undefined (NotFunction Undefined)) =
     Inl ReferenceError"
  by (simp add: run_def taskWait_def checkTask_def onEnd_def call_callback_def
      waiter_no_callback_def ok_response_def task_body_def getLibraryReferences_def request_of_def)

text \<open>
  C3, at a failing input: the documented call, with the library ID \<^verbatim>\<open>"L1"\<close> and
  the extra query \<^verbatim>\<open>{sort: "title"}\<close>. The URL is built from the bare name
  \<^verbatim>\<open>config\<close>: with no such global a ReferenceError is raised and no request is
  issued. Where the host program defines that global, the request is issued with
  the query \<^verbatim>\<open>{library: undefined, sort: "title"}\<close>: the library ID is read as
  \<^verbatim>\<open>library._id\<close>, which a string does not have, so the query carries no library
  ID.
\<close>

theorem getLibraryReferences_documented_call:
  "request_of (getLibraryReferences None (Str ''L1'') (Obj [(''sort'', Str ''title'')]) Function) =
     Inl ReferenceError \<and>
   request_of (getLibraryReferences (Some default_config) (Str ''L1'')
      (Obj [(''sort'', Str ''title'')]) Function) =
     Inr \<lparr>req_method = GET, req_url = ''http://glitch/api/references'', req_send = None,
          req_query = Some (Obj [(''library'', Undefined), (''sort'', Str ''title'')]),
          req_attach = [], req_field = []\<rparr>"
  by (simp add: request_of_def getLibraryReferences_def default_config_def assignMergeValue_def
      put_prop_def index_of_library index_of_sort)

text \<open>
  The extra query is the last source of the merge: given a global \<^verbatim>\<open>config\<close> and
  a library object, a \<^verbatim>\<open>library\<close> key of the extra query replaces the library ID.
\<close>

lemma getLibraryReferences_extra_query_last:
  "request_of (getLibraryReferences (Some default_config) (Obj [(''_id'', Str ''L1'')])
      (Obj [(''library'', Str ''L2'')]) Function) =
     Inr \<lparr>req_method = GET, req_url = ''http://glitch/api/references'', req_send = None,
          req_query = Some (Obj [(''library'', Str ''L2'')]),
          req_attach = [], req_field = []\<rparr>"
  by (simp add: request_of_def getLibraryReferences_def default_config_def assignMergeValue_def
      put_prop_def index_of_library)

text \<open>An array-index key of the extra query comes first in the merged query.\<close>

lemma merge_index_key_first:
  "merge (merge (Obj []) (Obj [(''library'', Str ''L1'')]))
     (Obj [(''1'', Str ''a''), (''sort'', Str ''title'')]) =
   Obj [(''1'', Str ''a''), (''library'', Str ''L1''), (''sort'', Str ''title'')]"
  by (simp add: assignMergeValue_def put_prop_def index_of_library index_of_sort index_of_1)

text \<open>
  C4, as amended. After a successful transport, with a completion callback, the
  poll reports \<^verbatim>\<open>'Empty response'\<close> exactly when the body's \<^verbatim>\<open>_id\<close> or its
  \<^verbatim>\<open>status\<close> is missing or falsy; only a body with both proceeds to the status
  dispatch.
\<close>

theorem empty_response_iff:
  assumes "isFunction (callback w)" and "\<not> truthy err"
    and "get_prop (body res) ''_id'' = Inr i"
    and "get_prop (body res) ''status'' = Inr st"
  shows "(onEnd str2num w err res = [Callback [Str ''Empty response'']]) = (\<not> (truthy i \<and> truthy st))"
  using assms
  by (auto simp add: onEnd_def call_callback_def handleResponse_def processing_def
      split: sum.splits)

theorem empty_response_iff_witness:
  "isFunction (callback waiter0) \<and> \<not> truthy Null \<and>
   get_prop (body (ok_response (Obj [(''_id'', Str ''t1'')]))) ''_id'' = Inr (Str ''t1'') \<and>
   get_prop (body (ok_response (Obj [(''_id'', Str ''t1'')]))) ''status'' = Inr Undefined \<and>
   truthy (Str ''t1'') \<and> \<not> truthy Undefined \<and>
   onEnd nan_of_string waiter0 Null (ok_response (Obj [(''_id'', Str ''t1'')])) =
     [Callback [Str ''Empty response'']]"
proof -
  have h1: "isFunction (callback waiter0)"
    by (simp add: waiter0_def)
  have h2: "\<not> truthy Null"
    by simp
  have h3: "get_prop (body (ok_response (Obj [(''_id'', Str ''t1'')]))) ''_id'' = Inr (Str ''t1'')"
    by (simp add: ok_response_def)
  have h4: "get_prop (body (ok_response (Obj [(''_id'', Str ''t1'')]))) ''status'' = Inr Undefined"
    by (simp add: ok_response_def)
  from empty_response_iff [OF h1 h2 h3 h4, of nan_of_string]
  show ?thesis
    using h1 h3 h4 by simp
qed

text \<open>
  C4 as stated fails: a body with a status field and no \<^verbatim>\<open>_id\<close> is reported as
  an empty response.
\<close>

theorem empty_response_counterexample:
  "get_prop (Obj [(''status'', Str ''pending'')]) ''status'' = Inr (Str ''pending'') \<and>
   onEnd nan_of_string waiter0 Null (ok_response (Obj [(''status'', Str ''pending'')])) =
     [Callback [Str ''Empty response'']]"
  by (simp add: onEnd_def ok_response_def waiter0_def call_callback_def)

text \<open>
  C5, as amended. For a \<^verbatim>\<open>taskWait\<close> invocation with a completion callback and a
  poll response without transport error whose body has a truthy \<^verbatim>\<open>_id\<close> and a
  truthy status that is none of \<^verbatim>\<open>completed\<close>, \<^verbatim>\<open>pending\<close>, \<^verbatim>\<open>error\<close>,
  \<^verbatim>\<open>processing\<close>: the handler's only effect is one invocation of the completion
  callback with a single string that starts with \<^verbatim>\<open>'Unknown server task status: '\<close>;
  the loop is then idle and no further request is issued, whatever happens later.
\<close>

theorem unknown_status_reported:
  assumes "isFunction (callback w)" and "\<not> truthy err"
    and "get_prop (body res) ''_id'' = Inr i" and "truthy i"
    and "get_prop (body res) ''status'' = Inr st" and "truthy st"
    and "st \<noteq> Str ''completed''" and "st \<noteq> Str ''pending''"
    and "st \<noteq> Str ''error''" and "st \<noteq> Str ''processing''"
  shows "(\<exists>detail. onEnd str2num w err res =
            [Callback [Str (''Unknown server task status: '' @ detail)]]) \<and>
         (inflight s = 1 \<and> timers s = 0 \<longrightarrow>
            (let s1 = step str2num w s (Response err res) in
               inflight s1 = 0 \<and> timers s1 = 0 \<and>
               n_requests (trace s1) = n_requests (trace s) \<and>
               run str2num w s1 later = s1))"
proof -
  have handler: "onEnd str2num w err res =
      [Callback [Str (''Unknown server task status: '' @ show_int (status res))]]"
    using assms by (simp add: onEnd_def call_callback_def)
  have "inflight s1 = 0 \<and> timers s1 = 0 \<and> n_requests (trace s1) = n_requests (trace s) \<and>
      run str2num w s1 later = s1"
    if "inflight s = 1" and "timers s = 0" and "s1 = step str2num w s (Response err res)" for s1
  proof -
    have idle: "inflight s1 = 0" "timers s1 = 0"
      using that handler by (simp_all add: Let_def)
    moreover have "n_requests (trace s1) = n_requests (trace s)"
      using that handler by (simp add: Let_def)
    moreover have "run str2num w s1 later = s1"
      using idle by (rule run_idle)
    ultimately show ?thesis by simp
  qed
  with handler show ?thesis
    unfolding Let_def by blast
qed

theorem unknown_status_reported_witness:
  "isFunction (callback waiter0) \<and> \<not> truthy Null \<and>
   get_prop (body (ok_response (task_body ''bogus''))) ''_id'' = Inr (Str ''t1'') \<and>
   truthy (Str ''t1'') \<and>
   get_prop (body (ok_response (task_body ''bogus''))) ''status'' = Inr (Str ''bogus'') \<and>
   truthy (Str ''bogus'') \<and>
   inflight (taskWait waiter0) = 1 \<and> timers (taskWait waiter0) = 0 \<and>
   (\<exists>detail. onEnd nan_of_string waiter0 Null (ok_response (task_body ''bogus'')) =
      [Callback [Str (''Unknown server task status: '' @ detail)]]) \<and>
   n_requests (trace (step nan_of_string waiter0 (taskWait waiter0)
      (Response Null (ok_response (task_body ''bogus''))))) = n_requests (trace (taskWait waiter0)) \<and>
   run nan_of_string waiter0
     (step nan_of_string waiter0 (taskWait waiter0) (Response Null (ok_response (task_body ''bogus''))))
     [TimerFires] =
   step nan_of_string waiter0 (taskWait waiter0) (Response Null (ok_response (task_body ''bogus'')))"
proof -
  have h1: "isFunction (callback waiter0)"
    by (simp add: waiter0_def)
  have h2: "\<not> truthy Null"
    by simp
  have h3: "get_prop (body (ok_response (task_body ''bogus''))) ''_id'' = Inr (Str ''t1'')"
    by (simp add: ok_response_def task_body_def)
  have h4: "truthy (Str ''t1'')"
    by simp
  have h5: "get_prop (body (ok_response (task_body ''bogus''))) ''status'' = Inr (Str ''bogus'')"
    by (simp add: ok_response_def task_body_def)
  have h6: "truthy (Str ''bogus'')"
    by simp
  have h7: "Str ''bogus'' \<noteq> Str ''completed''" "Str ''bogus'' \<noteq> Str ''pending''"
    "Str ''bogus'' \<noteq> Str ''error''" "Str ''bogus'' \<noteq> Str ''processing''"
    by simp_all
  have h8: "inflight (taskWait waiter0) = 1" "timers (taskWait waiter0) = 0"
    by (simp_all add: taskWait_def checkTask_def)
  from unknown_status_reported [OF h1 h2 h3 h4 h5 h6 h7, of nan_of_string "taskWait waiter0" "[TimerFires]"]
    h1 h2 h3 h4 h5 h6 h8
  show ?thesis
    unfolding Let_def by blast
qed

text \<open>
  C5 as stated fails. For the body \<^verbatim>\<open>{_id: "t1", status: "bogus"}\<close> of a response
  with HTTP status 200 the completion callback receives
  \<^verbatim>\<open>'Unknown server task status: 200'\<close>: the message is built from \<^verbatim>\<open>res.status\<close>,
  the HTTP status, and does not carry the body's status string. The body
  \<^verbatim>\<open>{status: "bogus"}\<close>, with no \<^verbatim>\<open>_id\<close>, is reported as an empty response.
\<close>

theorem unknown_status_counterexample:
  "onEnd nan_of_string waiter0 Null (ok_response (task_body ''bogus'')) =
     [Callback [Str ''Unknown server task status: 200'']] \<and>
   onEnd nan_of_string waiter0 Null (ok_response (Obj [(''status'', Str ''bogus'')])) =
     [Callback [Str ''Empty response'']]"
  by (simp add: onEnd_def ok_response_def task_body_def waiter0_def call_callback_def show_int_200)

text \<open>
  C6, as amended. For each of \<^verbatim>\<open>login\<close>, \<^verbatim>\<open>upload\<close>, \<^verbatim>\<open>taskQueue\<close> and
  \<^verbatim>\<open>getLibraryReferences\<close> called with a callback, and for a \<^verbatim>\<open>taskWait\<close> poll
  whose body has a truthy \<^verbatim>\<open>_id\<close> and the status \<^verbatim>\<open>completed\<close>, and every outcome
  \<open>(err, res)\<close> handed to the \<^verbatim>\<open>.end\<close> handler: a response with a status code other
  than 200 (and no transport error) invokes the callback once with the single
  argument \<^verbatim>\<open>'Status code: '\<close> followed by that code, so with no success value; and
  in every case exactly one of three things happens: the transport error is passed
  on, or the status code error, or \<open>(null, body)\<close>.
\<close>

theorem handleResponse_exactly_one:
  assumes "isFunction cb"
    and "h = snd (login cfg username password cb) \<or>
         h = snd (upload cfg file settings cb) \<or>
         h = snd (taskQueue cfg library alias settings cb) \<or>
         getLibraryReferences global_config lib query cb = Inr (r, h) \<or>
         h = onEnd str2num w \<and> callback w = cb \<and>
           get_prop (body res) ''_id'' = Inr i \<and> truthy i \<and>
           get_prop (body res) ''status'' = Inr (Str ''completed'')"
  shows "(\<not> truthy err \<and> statusCode res \<noteq> 200 \<longrightarrow>
            h err res = [Callback [Str (''Status code: '' @ show_int (statusCode res))]]) \<and>
         (truthy err \<and> h err res = [Callback [err]] \<or>
          \<not> truthy err \<and> statusCode res \<noteq> 200 \<and>
            h err res = [Callback [Str (''Status code: '' @ show_int (statusCode res))]] \<or>
          \<not> truthy err \<and> statusCode res = 200 \<and> h err res = [Callback [Null, body res]])"
proof -
  have "h err res = handleResponse err res cb"
    using assms
    by (auto simp add: login_def upload_def taskQueue_def getLibraryReferences_def
        onEnd_def call_callback_def handleResponse_def
        split: option.splits sum.splits)
  then show ?thesis
    using assms(1) by (simp add: handleResponse_def)
qed

theorem handleResponse_exactly_one_witness:
  "isFunction Function \<and> \<not> truthy Null \<and>
   snd (login default_config (Str ''u'') (Str ''p'') Function) Null
       \<lparr>statusCode = 404, status = 404, body = Obj []\<rparr> =
     [Callback [Str ''Status code: 404'']]"
proof -
  have h1: "isFunction Function"
    by simp
  from handleResponse_exactly_one [where cb = Function
      and h = "snd (login default_config (Str ''u'') (Str ''p'') Function)"
      and cfg = default_config and username = "Str ''u''" and password = "Str ''p''"
      and err = Null and res = "\<lparr>statusCode = 404, status = 404, body = Obj []\<rparr>"] h1
  show ?thesis
    by (simp add: show_int_404)
qed

text \<open>
  C6 as stated fails for \<^verbatim>\<open>taskWait\<close>: a poll answered with status code 202 and a
  pending task only schedules the next tick, and one answered with 404 and an
  empty body reports an empty response, not the status code.
\<close>

theorem taskWait_status_code_counterexample:
  "onEnd nan_of_string waiter0 Null \<lparr>statusCode = 202, status = 202, body = task_body ''pending''\<rparr> =
     [SetTimeout 1000] \<and>
   onEnd nan_of_string waiter0 Null \<lparr>statusCode = 404, status = 404, body = Obj []\<rparr> =
     [Callback [Str ''Empty response'']]"
  by (simp add: onEnd_def task_body_def waiter0_def default_config_def call_callback_def)

text \<open>
  C7, as amended. For a poll response without transport error whose body has a
  truthy \<^verbatim>\<open>_id\<close>: with status \<^verbatim>\<open>processing\<close> and a progress object whose
  \<^verbatim>\<open>current\<close> and \<^verbatim>\<open>max\<close> convert to the numbers \<open>c\<close> and \<open>m\<close>, the percent is
  \<^verbatim>\<open>Math.ceil(c / m * 100)\<close>; a supplied progress callback is invoked once with
  the body whose progress object has gained \<^verbatim>\<open>percent\<close> (everything else
  unchanged), and the next tick is scheduled after \<^verbatim>\<open>pollFreq\<close>; without a
  progress callback the tick is only scheduled. With status \<^verbatim>\<open>pending\<close> the next
  tick is scheduled and nothing else happens. For \<^verbatim>\<open>{current: 3, max: 4}\<close> the
  percent is 75.
\<close>

theorem processing_reports_percent:
  assumes "\<not> truthy err" and "get_prop (body res) ''_id'' = Inr i" and "truthy i"
  shows "(get_prop (body res) ''status'' = Inr (Str ''processing'') \<and>
          get_prop (body res) ''progress'' = Inr (Obj ps) \<and>
          get_prop (Obj ps) ''current'' = Inr current \<and>
          get_prop (Obj ps) ''max'' = Inr mx \<and>
          to_number str2num current = Inr c \<and> to_number str2num mx = Inr m \<longrightarrow>
            (let percent = js_ceil (js_mul (js_div c m) (Finite 100));
                 augmented = set_prop (body res) ''progress''
                               (set_prop (Obj ps) ''percent'' (Num percent))
             in onEnd str2num w err res =
                  (if isFunction (callbackProgress w) then [CallbackProgress [augmented]] else []) @
                  [SetTimeout (pollFreq (self_config w))] \<and>
                get_prop augmented ''progress'' = Inr (Obj (AList.update ''percent'' (Num percent) ps)) \<and>
                get_prop (Obj (AList.update ''percent'' (Num percent) ps)) ''percent'' = Inr (Num percent) \<and>
                (\<forall>k. k \<noteq> ''progress'' \<longrightarrow> get_prop augmented k = get_prop (body res) k) \<and>
                (\<forall>k. k \<noteq> ''percent'' \<longrightarrow>
                   get_prop (Obj (AList.update ''percent'' (Num percent) ps)) k = get_prop (Obj ps) k))) \<and>
         (get_prop (body res) ''status'' = Inr (Str ''pending'') \<longrightarrow>
            onEnd str2num w err res = [SetTimeout (pollFreq (self_config w))]) \<and>
         percent_of str2num (Num (Finite 3)) (Num (Finite 4)) = Inr (Finite 75)"
proof -
  have processing_case: "onEnd str2num w err res =
        (if isFunction (callbackProgress w)
         then [CallbackProgress [set_prop (body res) ''progress''
                 (set_prop (Obj ps) ''percent'' (Num (js_ceil (js_mul (js_div c m) (Finite 100)))))]]
         else []) @ [SetTimeout (pollFreq (self_config w))]"
    if "get_prop (body res) ''status'' = Inr (Str ''processing'')"
      and "get_prop (body res) ''progress'' = Inr (Obj ps)"
      and "get_prop (Obj ps) ''current'' = Inr current"
      and "get_prop (Obj ps) ''max'' = Inr mx"
      and "to_number str2num current = Inr c" and "to_number str2num mx = Inr m"
    using assms that by (simp add: onEnd_def processing_def percent_of_def)
  have augmented: "get_prop (set_prop (body res) ''progress'' p') ''progress'' = Inr p' \<and>
       (\<forall>k. k \<noteq> ''progress'' \<longrightarrow>
          get_prop (set_prop (body res) ''progress'' p') k = get_prop (body res) k)"
    if "get_prop (body res) ''progress'' = Inr (Obj ps)" for p'
  proof -
    from that obtain bs where "body res = Obj bs"
      by (rule get_prop_ObjE) simp
    then show ?thesis by (simp add: update_conv')
  qed
  have pending_case: "onEnd str2num w err res = [SetTimeout (pollFreq (self_config w))]"
    if "get_prop (body res) ''status'' = Inr (Str ''pending'')"
    using assms that by (simp add: onEnd_def)
  have example: "percent_of str2num (Num (Finite 3)) (Num (Finite 4)) = Inr (Finite 75)"
    by (simp add: percent_of_def percent_3_4)
  show ?thesis
    using processing_case augmented pending_case example
    by (simp add: Let_def update_conv')
qed

theorem processing_reports_percent_witness:
  "\<not> truthy Null \<and>
   get_prop (progress_body (Num (Finite 3)) (Num (Finite 4))) ''_id'' = Inr (Str ''t1'') \<and>
   truthy (Str ''t1'') \<and>
   onEnd nan_of_string waiter0 Null (ok_response (progress_body (Num (Finite 3)) (Num (Finite 4)))) =
     [CallbackProgress
        [Obj [(''_id'', Str ''t1''), (''status'', Str ''processing''),
              (''progress'', Obj [(''current'', Num (Finite 3)), (''max'', Num (Finite 4)),
                                  (''percent'', Num (Finite 75))])]],
      SetTimeout 1000]"
proof -
  have h1: "\<not> truthy Null"
    by simp
  have h2: "get_prop (body (ok_response (progress_body (Num (Finite 3)) (Num (Finite 4))))) ''_id'' =
      Inr (Str ''t1'')"
    by (simp add: ok_response_def progress_body_def)
  have h3: "truthy (Str ''t1'')"
    by simp
  from processing_reports_percent [OF h1 h2 h3, of "[(''current'', Num (Finite 3)), (''max'', Num (Finite 4))]"
      "Num (Finite 3)" "Num (Finite 4)" nan_of_string "Finite 3" "Finite 4" waiter0]
  show ?thesis
    using h1 h3
    by (simp add: ok_response_def progress_body_def percent_3_4 waiter0_def default_config_def Let_def)
qed

text \<open>
  C7 as stated fails: the body \<^verbatim>\<open>{status: "processing", progress: {current: 3, max: 4}}\<close>,
  with no \<^verbatim>\<open>_id\<close>, is reported as an empty response; the progress callback is not
  invoked and no tick is scheduled.
\<close>

theorem processing_without_id_counterexample:
  "onEnd nan_of_string waiter0 Null
     (ok_response (Obj [(''status'', Str ''processing''),
        (''progress'', Obj [(''current'', Num (Finite 3)), (''max'', Num (Finite 4))])])) =
     [Callback [Str ''Empty response'']]"
  by (simp add: onEnd_def ok_response_def waiter0_def call_callback_def)

text \<open>
  C8. \<^verbatim>\<open>taskQueue\<close> issues a POST to \<^verbatim>\<open>/api/tasks/library/<library>/<task>\<close> under
  the base URL with the body \<^verbatim>\<open>{settings: settings}\<close>, the settings replaced by the
  empty object when they are falsy: called with no settings, the body is
  \<^verbatim>\<open>{settings: {}}\<close>.
\<close>

theorem taskQueue_request:
  "fst (taskQueue cfg library alias settings cb) =
     \<lparr>req_method = POST,
      req_url = url cfg @ ''/api/tasks/library/'' @ library @ ''/'' @ alias,
      req_send = Some (Obj [(''settings'', if truthy settings then settings else Obj [])]),
      req_query = None, req_attach = [], req_field = []\<rparr> \<and>
   req_send (fst (taskQueue cfg library alias Undefined cb)) =
     Some (Obj [(''settings'', Obj [])])"
  by (simp add: taskQueue_def)

text \<open>
  C9. In the \<^verbatim>\<open>processing\<close> case with a progress callback, the progress object
  is read without a guard: when the body has no \<^verbatim>\<open>progress\<close> (or it is null) the
  handler raises a TypeError, and invokes no callback; when the body has a progress
  object with numbers \<^verbatim>\<open>current\<close> and \<^verbatim>\<open>max\<close>, nothing is raised.
\<close>

theorem processing_unguarded_progress:
  assumes "isFunction (callbackProgress w)" and "\<not> truthy err"
    and "get_prop (body res) ''_id'' = Inr i" and "truthy i"
    and "get_prop (body res) ''status'' = Inr (Str ''processing'')"
  shows "(get_prop (body res) ''progress'' = Inr p \<and> (p = Undefined \<or> p = Null) \<longrightarrow>
            onEnd str2num w err res = [Throw TypeError]) \<and>
         (get_prop (body res) ''progress'' = Inr (Obj ps) \<and>
          get_prop (Obj ps) ''current'' = Inr (Num c) \<and>
          get_prop (Obj ps) ''max'' = Inr (Num m) \<longrightarrow>
            Throw e \<notin> set (onEnd str2num w err res))"
  using assms
  by (auto simp add: onEnd_def processing_def percent_of_def)

theorem processing_unguarded_progress_witness:
  "isFunction (callbackProgress waiter0) \<and> \<not> truthy Null \<and>
   get_prop (body (ok_response (task_body ''processing''))) ''_id'' = Inr (Str ''t1'') \<and>
   truthy (Str ''t1'') \<and>
   get_prop (body (ok_response (task_body ''processing''))) ''status'' = Inr (Str ''processing'') \<and>
   get_prop (body (ok_response (task_body ''processing''))) ''progress'' = Inr Undefined \<and>
   onEnd nan_of_string waiter0 Null (ok_response (task_body ''processing'')) = [Throw TypeError]"
proof -
  have h1: "isFunction (callbackProgress waiter0)"
    by (simp add: waiter0_def)
  have h2: "\<not> truthy Null"
    by simp
  have h3: "get_prop (body (ok_response (task_body ''processing''))) ''_id'' = Inr (Str ''t1'')"
    by (simp add: ok_response_def task_body_def)
  have h4: "truthy (Str ''t1'')"
    by simp
  have h5: "get_prop (body (ok_response (task_body ''processing''))) ''status'' =
      Inr (Str ''processing'')"
    by (simp add: ok_response_def task_body_def)
  have h6: "get_prop (body (ok_response (task_body ''processing''))) ''progress'' = Inr Undefined"
    by (simp add: ok_response_def task_body_def)
  from processing_unguarded_progress [OF h1 h2 h3 h4 h5, of Undefined nan_of_string]
  show ?thesis
    using h1 h3 h5 h6 by simp
qed

text \<open>
  C10, as amended. For a \<^verbatim>\<open>taskWait\<close> invocation with a completion callback
  and a poll response without transport error whose body has a truthy \<^verbatim>\<open>_id\<close>
  and the status \<^verbatim>\<open>error\<close>, the completion callback is invoked
  with the single argument \<^verbatim>\<open>'Task error'\<close>, whatever the response holds
  otherwise, and no timer is set: in the loop, the response only removes the
  request in flight and logs the callback.
\<close>

theorem task_error_reported:
  assumes "isFunction (callback w)" and "\<not> truthy err"
    and "get_prop (body res) ''_id'' = Inr i" and "truthy i"
    and "get_prop (body res) ''status'' = Inr (Str ''error'')"
  shows "onEnd str2num w err res = [Callback [Str ''Task error'']] \<and>
         (0 < inflight s \<longrightarrow>
            step str2num w s (Response err res) =
              s\<lparr>inflight := inflight s - 1, trace := trace s @ [Callback [Str ''Task error'']]\<rparr>)"
proof -
  have "onEnd str2num w err res = [Callback [Str ''Task error'']]"
    using assms by (simp add: onEnd_def call_callback_def)
  then show ?thesis by (simp add: Let_def)
qed

theorem task_error_reported_witness:
  "isFunction (callback waiter0) \<and> \<not> truthy Null \<and>
   get_prop (body (ok_response (task_body ''error''))) ''_id'' = Inr (Str ''t1'') \<and>
   truthy (Str ''t1'') \<and>
   get_prop (body (ok_response (task_body ''error''))) ''status'' = Inr (Str ''error'') \<and>
   onEnd nan_of_string waiter0 Null (ok_response (task_body ''error'')) =
     [Callback [Str ''Task error'']] \<and>
   0 < inflight (taskWait waiter0) \<and>
   step nan_of_string waiter0 (taskWait waiter0) (Response Null (ok_response (task_body ''error''))) =
     \<lparr>inflight = 0, timers = 0,
      trace = [Request (poll_request waiter0), Callback [Str ''Task error'']]\<rparr>"
proof -
  have h1: "isFunction (callback waiter0)"
    by (simp add: waiter0_def)
  have h2: "\<not> truthy Null"
    by simp
  have h3: "get_prop (body (ok_response (task_body ''error''))) ''_id'' = Inr (Str ''t1'')"
    by (simp add: ok_response_def task_body_def)
  have h4: "truthy (Str ''t1'')"
    by simp
  have h5: "get_prop (body (ok_response (task_body ''error''))) ''status'' = Inr (Str ''error'')"
    by (simp add: ok_response_def task_body_def)
  have h6: "0 < inflight (taskWait waiter0)"
    by (simp add: taskWait_def checkTask_def)
  from task_error_reported [OF h1 h2 h3 h4 h5, of nan_of_string "taskWait waiter0"]
  have "onEnd nan_of_string waiter0 Null (ok_response (task_body ''error'')) =
          [Callback [Str ''Task error'']]"
    and "step nan_of_string waiter0 (taskWait waiter0)
           (Response Null (ok_response (task_body ''error''))) =
         (taskWait waiter0)\<lparr>inflight := inflight (taskWait waiter0) - 1,
            trace := trace (taskWait waiter0) @ [Callback [Str ''Task error'']]\<rparr>"
    using h6 by blast+
  then show ?thesis
    using h1 h3 h5 by (simp add: taskWait_def checkTask_def)
qed

text \<open>
  C10 as stated fails: the body \<^verbatim>\<open>{status: "error"}\<close>, with no \<^verbatim>\<open>_id\<close>, is
  reported as an empty response.
\<close>

theorem task_error_without_id_counterexample:
  "onEnd nan_of_string waiter0 Null (ok_response (Obj [(''status'', Str ''error'')])) =
     [Callback [Str ''Empty response'']]"
  by (simp add: onEnd_def ok_response_def waiter0_def call_callback_def)

end
